theory Spec2Isabelle
  imports Main
begin

section \<open>Values, exceptions and effects\<close>

text \<open>
  The adapter lives in two variants, \<^verbatim>\<open>nonebot/adapter/spigot/adapter.py\<close> and
  \<^verbatim>\<open>nonebot/adapters/spigot/adapter.py\<close>. Both define the class \<^verbatim>\<open>Adapter\<close> with the
  coroutine \<^verbatim>\<open>_handle_ws\<close> and the class methods \<^verbatim>\<open>get_event_model\<close> and
  \<^verbatim>\<open>json_to_event\<close>; the two class methods are the same text in both files.

  A value returned by \<^verbatim>\<open>json.loads\<close>: \<^verbatim>\<open>None\<close>, a bool, an int, a float (kept as its
  literal), a str, a list or a dict. Only a dict passes \<^verbatim>\<open>isinstance(json_data, dict)\<close>.
\<close>

datatype json =
    JNull
  | JBool bool
  | JInt int
  | JFloat string
  | JStr string
  | JArr "json list"
  | JObj "(string \<times> json) list"

type_synonym obj = "(string \<times> json) list"

text \<open>
  The exceptions of the model are all subclasses of \<^verbatim>\<open>Exception\<close>, the class the
  handlers of the source name. \<^verbatim>\<open>WebSocketClosed\<close> has a handler of its own.
\<close>

datatype exn =
    WebSocketClosed
  | JSONDecodeError
  | ValidationError
  | AttributeError
  | UnicodeDecodeError
  | ValueError
  | OtherException

text \<open>
  A generator of candidate models, as \<^verbatim>\<open>get_event_model\<close> returns one: it stops, yields
  a model and goes on, or raises while it is being iterated.
\<close>

datatype 'm gen = Stop | Yield 'm "'m gen" | Throw exn

fun yields :: "'m list \<Rightarrow> 'm gen \<Rightarrow> 'm gen" where
  "yields [] g = g"
| "yields (m # ms) g = Yield m (yields ms g)"

type_synonym ws = nat

datatype level = DEBUG | INFO | WARNING | ERROR

text \<open>One constructor for each call of \<^verbatim>\<open>log\<close> in the source, with the values it formats.\<close>

datatype log_msg =
    Missing_header
  | Already_a_bot string
  | Connected string
  | Closed_by_peer string
  | Process_error string exn
  | Event_parser_error exn
  | Failed_to_parse obj exn

text \<open>
  What a run does to the outside, in order: log calls, calls of \<^verbatim>\<open>parse_obj\<close> on a model,
  \<^verbatim>\<open>websocket.accept()\<close>, \<^verbatim>\<open>websocket.close(code, reason)\<close> (\<open>None\<close> for the call
  without arguments), an exception of that last call swallowed by
  \<^verbatim>\<open>contextlib.suppress\<close>, the framework hooks \<^verbatim>\<open>bot_connect\<close> and \<^verbatim>\<open>bot_disconnect\<close>,
  and \<^verbatim>\<open>asyncio.create_task(bot.handle_event(event))\<close> for the bot of the given name.
\<close>

datatype ('m, 'e) effect =
    Log level log_msg
  | Parse_obj 'm
  | Ws_accept ws
  | Ws_close ws "(nat \<times> string) option"
  | Suppressed exn
  | Bot_connect string
  | Bot_disconnect string
  | Create_task string 'e

text \<open>
  What the adapter takes from outside this file: \<^verbatim>\<open>json.loads\<close> (\<open>None\<close> when it raises
  \<^verbatim>\<open>JSONDecodeError\<close>), the collator's \<^verbatim>\<open>get_model\<close> on \<^verbatim>\<open>event_models\<close>, the class
  method \<^verbatim>\<open>parse_obj\<close> of the event models, the base class \<^verbatim>\<open>Event\<close>, the
  \<^verbatim>\<open>.encode('utf-8').decode('unicode_escape')\<close> chain of the second variant, and the
  logger. \<^verbatim>\<open>log\<close> parses its message as markup and raises \<^verbatim>\<open>ValueError\<close> on one it
  rejects. Four calls in \<^verbatim>\<open>_handle_ws\<close> format the identity of the peer into the message,
  and \<open>log_raises\<close> says for which of these messages the call raises. The other calls
  return: the one for a missing header passes a constant, and the two in
  \<^verbatim>\<open>json_to_event\<close> pass a constant and the escaped text of a dict.
\<close>

record ('m, 'e) env =
  loads :: "string \<Rightarrow> json option"
  get_model :: "obj \<Rightarrow> 'm gen"
  parse_obj :: "'m \<Rightarrow> obj \<Rightarrow> exn + 'e"
  Event :: 'm
  unicode_escape :: "string \<Rightarrow> exn + string"
  log_raises :: "level \<Rightarrow> log_msg \<Rightarrow> bool"

section \<open>Decoding: \<^verbatim>\<open>get_event_model\<close> and \<^verbatim>\<open>json_to_event\<close>\<close>

text \<open>\<^verbatim>\<open>yield from cls.event_models.get_model(data)\<close>\<close>

definition get_event_model :: "('m, 'e) env \<Rightarrow> obj \<Rightarrow> 'm gen" where
  "get_event_model env data = get_model env data"

text \<open>
  The \<^verbatim>\<open>for ... else\<close> of \<^verbatim>\<open>json_to_event\<close>, inside the outer \<^verbatim>\<open>try\<close>: a model that
  parses ends the loop (\<^verbatim>\<open>break\<close>), one that raises is logged at DEBUG and the loop goes
  on; when the generator is exhausted the \<^verbatim>\<open>else\<close> branch parses with \<^verbatim>\<open>Event\<close>. An
  exception of the generator or of the \<^verbatim>\<open>else\<close> branch leaves the block.
\<close>

fun try_models :: "('m, 'e) env \<Rightarrow> obj \<Rightarrow> 'm gen \<Rightarrow> ('m, 'e) effect list \<times> (exn + 'e)" where
  "try_models env json_data Stop =
     ([Parse_obj (Event env)], parse_obj env (Event env) json_data)"
| "try_models env json_data (Throw e) = ([], Inl e)"
| "try_models env json_data (Yield model g) =
     (case parse_obj env model json_data of
        Inr event \<Rightarrow> ([Parse_obj model], Inr event)
      | Inl e \<Rightarrow>
          (case try_models env json_data g of
             (tr, r) \<Rightarrow> (Parse_obj model # Log DEBUG (Event_parser_error e) # tr, r)))"

text \<open>
  \<^verbatim>\<open>json_to_event\<close>: \<open>Inr None\<close> is \<^verbatim>\<open>return None\<close> (also the implicit one after the
  outer handler has logged), \<open>Inr (Some event)\<close> is \<^verbatim>\<open>return event\<close>, \<open>Inl e\<close> would be an
  exception leaving the method.
\<close>

definition json_to_event ::
  "('m, 'e) env \<Rightarrow> json \<Rightarrow> string \<Rightarrow> ('m, 'e) effect list \<times> (exn + 'e option)" where
  "json_to_event env json_data self_name =
     (case json_data of
        JObj d \<Rightarrow>
          (case try_models env d (get_event_model env d) of
             (tr, Inr event) \<Rightarrow> (tr, Inr (Some event))
           | (tr, Inl e) \<Rightarrow> (tr @ [Log ERROR (Failed_to_parse d e)], Inr None))
      | _ \<Rightarrow> ([], Inr None))"

fun is_dict :: "json \<Rightarrow> bool" where
  "is_dict (JObj d) = True"
| "is_dict _ = False"

fun parse_calls :: "('m, 'e) effect list \<Rightarrow> 'm list" where
  "parse_calls [] = []"
| "parse_calls (Parse_obj m # tr) = m # parse_calls tr"
| "parse_calls (_ # tr) = parse_calls tr"

section \<open>Connections: \<^verbatim>\<open>_handle_ws\<close>\<close>

text \<open>
  The adapter object: \<^verbatim>\<open>self.connections\<close>, the keys of \<^verbatim>\<open>self.bots\<close> (kept by the
  framework's \<^verbatim>\<open>bot_connect\<close> and \<^verbatim>\<open>bot_disconnect\<close>), and the module-level mapping
  \<^verbatim>\<open>get_connections\<close> that the second variant imports from \<^verbatim>\<open>.utils\<close>.
\<close>

record adapter =
  connections :: "string \<rightharpoonup> ws"
  bots :: "string set"
  get_connections :: "string \<rightharpoonup> ws"

text \<open>
  The framework hooks: \<^verbatim>\<open>bot_connect(bot)\<close> stores the bot under \<^verbatim>\<open>bot.self_id\<close> in
  \<^verbatim>\<open>self.bots\<close>, \<^verbatim>\<open>bot_disconnect(bot)\<close> removes that key.
\<close>

definition bot_connect :: "string \<Rightarrow> adapter \<Rightarrow> adapter" where
  "bot_connect self_id s = s\<lparr>bots := insert self_id (bots s)\<rparr>"

definition bot_disconnect :: "string \<Rightarrow> adapter \<Rightarrow> adapter" where
  "bot_disconnect self_id s = s\<lparr>bots := bots s - {self_id}\<rparr>"

text \<open>
  What leaves a block of \<^verbatim>\<open>_handle_ws\<close>: an exception of class \<^verbatim>\<open>Exception\<close>, or
  \<^verbatim>\<open>asyncio.CancelledError\<close>, which the task gets while it waits in an \<^verbatim>\<open>await\<close> and
  which is a \<^verbatim>\<open>BaseException\<close> only: \<^verbatim>\<open>except Exception\<close> and
  \<^verbatim>\<open>contextlib.suppress(Exception)\<close> let it pass.
\<close>

datatype raised = Exc exn | CancelledError

text \<open>
  One \<^verbatim>\<open>await websocket.receive()\<close> returns a text, raises an exception, or is where the
  task is cancelled. The argument \<^verbatim>\<open>websocket\<close> of \<^verbatim>\<open>_handle_ws\<close> is the handle stored
  in the maps, the value of \<^verbatim>\<open>websocket.request.headers.get("x-self-name")\<close>, what the
  successive calls of \<^verbatim>\<open>receive\<close> give, the exception, if any, that the final
  \<^verbatim>\<open>websocket.close()\<close> raises, and whether the task is cancelled while it waits in that
  final close. \<^verbatim>\<open>websocket.accept()\<close> and \<^verbatim>\<open>websocket.close(code, reason)\<close> are taken to
  return, and the framework hooks not to raise.
\<close>

datatype recv = Data string | Recv_raises exn | Recv_cancelled

record websocket =
  ident :: ws
  x_self_name :: "string option"
  receive :: "recv list"
  close_raises :: "exn option"
  close_cancelled :: bool

text \<open>
  How a run of \<^verbatim>\<open>_handle_ws\<close> stands: it returned after rejecting the handshake, an
  exception or a cancellation left it, it is suspended in \<^verbatim>\<open>await websocket.receive()\<close>
  with the connection open (the results of \<^verbatim>\<open>receive\<close> given so far are used up), or it
  returned after the \<^verbatim>\<open>finally\<close> block.
\<close>

datatype status = Rejected | Raised exn | Cancelled | Active string | Terminated string

text \<open>
  The body of \<^verbatim>\<open>while True\<close>. \<open>Some x\<close> is what leaves the loop (the \<^verbatim>\<open>try\<close> statement
  is around the whole loop); \<open>None\<close> is the loop waiting for the next frame.
\<close>

fun receive_loop ::
  "('m, 'e) env \<Rightarrow> string \<Rightarrow> recv list \<Rightarrow> ('m, 'e) effect list \<times> raised option" where
  "receive_loop env self_name [] = ([], None)"
| "receive_loop env self_name (Recv_raises e # rs) = ([], Some (Exc e))"
| "receive_loop env self_name (Recv_cancelled # rs) = ([], Some CancelledError)"
| "receive_loop env self_name (Data data # rs) =
     (case loads env data of
        None \<Rightarrow> ([], Some (Exc JSONDecodeError))
      | Some json_data \<Rightarrow>
          (case json_to_event env json_data self_name of
             (tr, Inl e) \<Rightarrow> (tr, Some (Exc e))
           | (tr, Inr None) \<Rightarrow>
               (case receive_loop env self_name rs of (tr', x) \<Rightarrow> (tr @ tr', x))
           | (tr, Inr (Some event)) \<Rightarrow>
               (case receive_loop env self_name rs of
                  (tr', x) \<Rightarrow> (tr @ Create_task self_name event # tr', x))))"

text \<open>
  The two handlers of the \<^verbatim>\<open>try\<close> statement: \<^verbatim>\<open>except WebSocketClosed\<close> logs a
  warning, \<^verbatim>\<open>except Exception\<close> logs an error with the exception, and a cancellation
  matches neither. The second component is what is still pending after the handlers: the
  cancellation, or the \<^verbatim>\<open>ValueError\<close> of a \<^verbatim>\<open>log\<close> call that raised inside a handler.
\<close>

definition except_handlers ::
  "('m, 'e) env \<Rightarrow> string \<Rightarrow> raised \<Rightarrow> ('m, 'e) effect list \<times> raised option" where
  "except_handlers env self_name x =
     (case x of
        CancelledError \<Rightarrow> ([], Some CancelledError)
      | Exc e \<Rightarrow>
          if e = WebSocketClosed then
            (if log_raises env WARNING (Closed_by_peer self_name) then ([], Some (Exc ValueError))
             else ([Log WARNING (Closed_by_peer self_name)], None))
          else
            (if log_raises env ERROR (Process_error self_name e) then ([], Some (Exc ValueError))
             else ([Log ERROR (Process_error self_name e)], None)))"

text \<open>
  The \<^verbatim>\<open>finally\<close> block: \<^verbatim>\<open>await websocket.close()\<close> under
  \<^verbatim>\<open>contextlib.suppress(Exception)\<close>, then \<^verbatim>\<open>self.connections.pop(self_name, None)\<close>
  and \<^verbatim>\<open>self.bot_disconnect(bot)\<close>. An exception of the close is swallowed; a
  cancellation in it leaves the block before the two removals. The third component is
  what the block itself raises.
\<close>

definition finally_block ::
  "websocket \<Rightarrow> string \<Rightarrow> adapter \<Rightarrow> ('m, 'e) effect list \<times> adapter \<times> raised option" where
  "finally_block websocket self_name s =
     (if close_cancelled websocket then
        ([Ws_close (ident websocket) None], s, Some CancelledError)
      else
        ([Ws_close (ident websocket) None]
         @ (case close_raises websocket of None \<Rightarrow> [] | Some x \<Rightarrow> [Suppressed x])
         @ [Bot_disconnect self_name],
         bot_disconnect self_name (s\<lparr>connections := (connections s)(self_name := None)\<rparr>),
         None))"

text \<open>
  How the \<^verbatim>\<open>try\<close> statement, the last of \<^verbatim>\<open>_handle_ws\<close>, is left: with nothing pending
  the coroutine returns, otherwise what is pending leaves it.
\<close>

fun left_by :: "raised option \<Rightarrow> string \<Rightarrow> status" where
  "left_by None self_name = Terminated self_name"
| "left_by (Some (Exc e)) self_name = Raised e"
| "left_by (Some CancelledError) self_name = Cancelled"

text \<open>
  The \<^verbatim>\<open>try\<close> statement of \<^verbatim>\<open>_handle_ws\<close>: the loop, then the handlers, then the
  \<^verbatim>\<open>finally\<close> block, which runs whatever left the loop; what the block raises replaces
  what was pending.
\<close>

definition try_receive ::
  "('m, 'e) env \<Rightarrow> websocket \<Rightarrow> string \<Rightarrow> adapter \<Rightarrow>
     ('m, 'e) effect list \<times> adapter \<times> status" where
  "try_receive env websocket self_name s =
     (case receive_loop env self_name (receive websocket) of
        (tr, None) \<Rightarrow> (tr, s, Active self_name)
      | (tr, Some x) \<Rightarrow>
          (case except_handlers env self_name x of
             (h, pending) \<Rightarrow>
               (case finally_block websocket self_name s of
                  (fin, s', c) \<Rightarrow>
                    (tr @ h @ fin, s',
                     left_by (case c of Some y \<Rightarrow> Some y | None \<Rightarrow> pending) self_name))))"

text \<open>
  \<^verbatim>\<open>_handle_ws\<close> of \<^verbatim>\<open>nonebot/adapter/spigot/adapter.py\<close>, in the three parts its
  \<^verbatim>\<open>await\<close>s cut it into. The first part reads the header, tests it and either ends the
  run (\<open>Inl\<close>) or calls \<^verbatim>\<open>await websocket.accept()\<close> (\<open>Inr\<close>, with the identity); it
  changes nothing in the adapter. The warning of the duplicate branch formats the
  identity as it is, without \<^verbatim>\<open>escape_tag\<close>, and \<^verbatim>\<open>log\<close> raises before
  \<^verbatim>\<open>websocket.close\<close> when it rejects the message.
\<close>

definition adapter_handshake ::
  "('m, 'e) env \<Rightarrow> websocket \<Rightarrow> adapter \<Rightarrow> ('m, 'e) effect list \<times> (status + string)" where
  "adapter_handshake env websocket s =
     (case x_self_name websocket of
        None \<Rightarrow>
          ([Log WARNING Missing_header,
            Ws_close (ident websocket) (Some (1008, ''Missing X-Self-ID Header''))],
           Inl Rejected)
      | Some self_name \<Rightarrow>
          if self_name = [] then
            ([Log WARNING Missing_header,
              Ws_close (ident websocket) (Some (1008, ''Missing X-Self-ID Header''))],
             Inl Rejected)
          else if self_name \<in> bots s then
            (if log_raises env WARNING (Already_a_bot self_name) then
               ([], Inl (Raised ValueError))
             else
               ([Log WARNING (Already_a_bot self_name),
                 Ws_close (ident websocket) (Some (1008, ''Duplicate X-Self-ID''))],
                Inl Rejected))
          else ([Ws_accept (ident websocket)], Inr self_name))"

text \<open>
  The second part runs when \<^verbatim>\<open>accept\<close> has returned: \<^verbatim>\<open>Bot(self, self_name)\<close>, the entry
  in \<^verbatim>\<open>self.connections\<close>, \<^verbatim>\<open>self.bot_connect(bot)\<close> and the \<^verbatim>\<open>INFO\<close> log. That log
  call is before the \<^verbatim>\<open>try\<close> statement: when it raises, the exception leaves
  \<^verbatim>\<open>_handle_ws\<close> with the identity registered.
\<close>

definition adapter_register ::
  "('m, 'e) env \<Rightarrow> websocket \<Rightarrow> string \<Rightarrow> adapter \<Rightarrow>
     ('m, 'e) effect list \<times> adapter \<times> exn option" where
  "adapter_register env websocket self_name s =
     (if log_raises env INFO (Connected self_name) then
        ([Bot_connect self_name],
         bot_connect self_name
           (s\<lparr>connections := (connections s)(self_name \<mapsto> ident websocket)\<rparr>),
         Some ValueError)
      else
        ([Bot_connect self_name, Log INFO (Connected self_name)],
         bot_connect self_name
           (s\<lparr>connections := (connections s)(self_name \<mapsto> ident websocket)\<rparr>),
         None))"

text \<open>One run of \<^verbatim>\<open>_handle_ws\<close> with no other task in between: the parts in turn.\<close>

definition adapter_handle_ws ::
  "('m, 'e) env \<Rightarrow> websocket \<Rightarrow> adapter \<Rightarrow> ('m, 'e) effect list \<times> adapter \<times> status" where
  "adapter_handle_ws env websocket s =
     (case adapter_handshake env websocket s of
        (tr, Inl st) \<Rightarrow> (tr, s, st)
      | (tr, Inr self_name) \<Rightarrow>
          (case adapter_register env websocket self_name s of
             (tr1, s1, Some e) \<Rightarrow> (tr @ tr1, s1, Raised e)
           | (tr1, s1, None) \<Rightarrow>
               (case try_receive env websocket self_name s1 of
                  (tr2, s2, st) \<Rightarrow> (tr @ tr1 @ tr2, s2, st))))"

text \<open>
  \<^verbatim>\<open>_handle_ws\<close> of \<^verbatim>\<open>nonebot/adapters/spigot/adapter.py\<close>, cut in the same way. Its
  first line calls \<^verbatim>\<open>.encode('utf-8').decode('unicode_escape')\<close> on what \<^verbatim>\<open>headers.get\<close>
  returned, before the \<^verbatim>\<open>try\<close> statement and before the test \<^verbatim>\<open>if not self_name\<close>: on
  \<^verbatim>\<open>None\<close> that is an \<^verbatim>\<open>AttributeError\<close>. The second part writes the module-level
  \<^verbatim>\<open>get_connections\<close> as well.
\<close>

definition adapters_handshake ::
  "('m, 'e) env \<Rightarrow> websocket \<Rightarrow> adapter \<Rightarrow> ('m, 'e) effect list \<times> (status + string)" where
  "adapters_handshake env websocket s =
     (case x_self_name websocket of
        None \<Rightarrow> ([], Inl (Raised AttributeError))
      | Some h \<Rightarrow>
          (case unicode_escape env h of
             Inl e \<Rightarrow> ([], Inl (Raised e))
           | Inr self_name \<Rightarrow>
               if self_name = [] then
                 ([Log WARNING Missing_header,
                   Ws_close (ident websocket) (Some (1008, ''Missing X-Self-Name Header''))],
                  Inl Rejected)
               else if self_name \<in> bots s then
                 (if log_raises env WARNING (Already_a_bot self_name) then
                    ([], Inl (Raised ValueError))
                  else
                    ([Log WARNING (Already_a_bot self_name),
                      Ws_close (ident websocket) (Some (1008, ''Duplicate X-Self-Name''))],
                     Inl Rejected))
               else ([Ws_accept (ident websocket)], Inr self_name)))"

definition adapters_register ::
  "('m, 'e) env \<Rightarrow> websocket \<Rightarrow> string \<Rightarrow> adapter \<Rightarrow>
     ('m, 'e) effect list \<times> adapter \<times> exn option" where
  "adapters_register env websocket self_name s =
     (if log_raises env INFO (Connected self_name) then
        ([Bot_connect self_name],
         bot_connect self_name
           (s\<lparr>connections := (connections s)(self_name \<mapsto> ident websocket),
              get_connections := (get_connections s)(self_name \<mapsto> ident websocket)\<rparr>),
         Some ValueError)
      else
        ([Bot_connect self_name, Log INFO (Connected self_name)],
         bot_connect self_name
           (s\<lparr>connections := (connections s)(self_name \<mapsto> ident websocket),
              get_connections := (get_connections s)(self_name \<mapsto> ident websocket)\<rparr>),
         None))"

definition adapters_handle_ws ::
  "('m, 'e) env \<Rightarrow> websocket \<Rightarrow> adapter \<Rightarrow> ('m, 'e) effect list \<times> adapter \<times> status" where
  "adapters_handle_ws env websocket s =
     (case adapters_handshake env websocket s of
        (tr, Inl st) \<Rightarrow> (tr, s, st)
      | (tr, Inr self_name) \<Rightarrow>
          (case adapters_register env websocket self_name s of
             (tr1, s1, Some e) \<Rightarrow> (tr @ tr1, s1, Raised e)
           | (tr1, s1, None) \<Rightarrow>
               (case try_receive env websocket self_name s1 of
                  (tr2, s2, st) \<Rightarrow> (tr @ tr1 @ tr2, s2, st))))"

text \<open>
  The registry and the bot set go together: a name is a key of \<^verbatim>\<open>self.connections\<close>
  exactly when it is a key of \<^verbatim>\<open>self.bots\<close>, and the empty name is never one. The
  adapter starts with both empty.
\<close>

definition registry_inv :: "adapter \<Rightarrow> bool" where
  "registry_inv s = ((\<forall>n. (n \<in> bots s) = (connections s n \<noteq> None)) \<and> [] \<notin> bots s)"

definition init :: "(string \<rightharpoonup> ws) \<Rightarrow> adapter" where
  "init g = \<lparr>connections = Map.empty, bots = {}, get_connections = g\<rparr>"

section \<open>An environment for concrete runs\<close>

text \<open>
  Models are class names and an event is its class with the fields it was parsed from.
  The collator yields the class named by \<^verbatim>\<open>event_name\<close>, when there is one, and then the
  base class; \<^verbatim>\<open>PlayerJoin\<close> needs a \<^verbatim>\<open>player\<close> field, \<^verbatim>\<open>Event\<close> an \<^verbatim>\<open>event_name\<close>.
  \<^verbatim>\<open>json.loads\<close> and the header decoding are given on the texts the runs below use. The
  logger rejects the warning that carries the identity \<^verbatim>\<open><x>\<close> unescaped, an unknown
  markup tag; it accepts the messages about \<^verbatim>\<open>Bot1\<close>.
\<close>

definition join_text :: string where
  \<open>join_text = ''{"event_name":"PlayerJoin","player":"Steve"}''\<close>

definition join_obj :: obj where
  "join_obj = [(''event_name'', JStr ''PlayerJoin''), (''player'', JStr ''Steve'')]"

definition spigot_env :: "(string, string \<times> obj) env" where
  "spigot_env =
     \<lparr>loads = (\<lambda>t. if t = join_text then Some (JObj join_obj)
                    else if t = ''{}'' then Some (JObj [])
                    else if t = ''[]'' then Some (JArr [])
                    else None),
      get_model = (\<lambda>d. case map_of d ''event_name'' of
                          Some (JStr n) \<Rightarrow> Yield n (Yield ''Event'' Stop)
                        | _ \<Rightarrow> Yield ''Event'' Stop),
      parse_obj = (\<lambda>m d.
         if m = ''PlayerJoin'' \<and> map_of d ''event_name'' = Some (JStr ''PlayerJoin'')
            \<and> map_of d ''player'' \<noteq> None then Inr (m, d)
         else if m = ''Event'' \<and> map_of d ''event_name'' \<noteq> None then Inr (m, d)
         else Inl ValidationError),
      Event = ''Event'',
      unicode_escape = (\<lambda>h. if h = ''Bot1'' \<or> h = ''<x>'' \<or> h = [] then Inr h
                           else Inl UnicodeDecodeError),
      log_raises = (\<lambda>l m. m = Already_a_bot ''<x>'')\<rparr>"

definition bot1_socket :: "recv list \<Rightarrow> websocket" where
  "bot1_socket rs =
     \<lparr>ident = 1, x_self_name = Some ''Bot1'', receive = rs, close_raises = None,
      close_cancelled = False\<rparr>"

definition bare_join_obj :: obj where
  "bare_join_obj = [(''event_name'', JStr ''PlayerJoin'')]"

definition bot1_online :: adapter where
  "bot1_online = \<lparr>connections = [''Bot1'' \<mapsto> 1], bots = {''Bot1''}, get_connections = Map.empty\<rparr>"


definition x_online :: adapter where
  "x_online = \<lparr>connections = [''<x>'' \<mapsto> 1], bots = {''<x>''}, get_connections = Map.empty\<rparr>"

definition x_socket :: websocket where
  "x_socket =
     \<lparr>ident = 2, x_self_name = Some ''<x>'', receive = [], close_raises = None,
      close_cancelled = False\<rparr>"

section \<open>Decoding: theorems\<close>

text \<open>
  C6: for every input value that is not a JSON object (an array, a string, a number, ...),
  \<^verbatim>\<open>json_to_event\<close> returns \<^verbatim>\<open>None\<close> and does nothing else: no candidate parse is
  attempted and nothing is logged.
\<close>

theorem json_to_event_not_dict:
  "\<not> is_dict json_data \<Longrightarrow> json_to_event env json_data self_name = ([], Inr None)"
  by (cases json_data) (simp_all add: json_to_event_def)

theorem json_to_event_not_dict_witness:
  "\<not> is_dict (JArr []) \<and> json_to_event spigot_env (JArr []) ''Bot1'' = ([], Inr None)
   \<and> \<not> is_dict (JStr ''x'') \<and> json_to_event spigot_env (JStr ''x'') ''Bot1'' = ([], Inr None)
   \<and> \<not> is_dict (JInt 42) \<and> json_to_event spigot_env (JInt 42) ''Bot1'' = ([], Inr None)"
proof -
  have a: "\<not> is_dict (JArr [])" and b: "\<not> is_dict (JStr ''x'')" and c: "\<not> is_dict (JInt 42)"
    by simp_all
  show ?thesis
    using a b c
      json_to_event_not_dict [OF a, of spigot_env "''Bot1''"]
      json_to_event_not_dict [OF b, of spigot_env "''Bot1''"]
      json_to_event_not_dict [OF c, of spigot_env "''Bot1''"]
    by simp
qed

text \<open>
  While every candidate so far has raised, the loop has called \<^verbatim>\<open>parse_obj\<close> on each of
  them in turn and goes on with the rest of the generator.
\<close>

lemma parse_calls_append: "parse_calls (a @ b) = parse_calls a @ parse_calls b"
  by (induction a rule: parse_calls.induct) simp_all

lemma try_models_yields_result:
  "\<forall>c\<in>set pre. isl (parse_obj env c d) \<Longrightarrow>
     snd (try_models env d (yields pre g)) = snd (try_models env d g)"
  by (induction pre) (auto simp: isl_def split: prod.splits)

lemma try_models_yields_calls:
  "\<forall>c\<in>set pre. isl (parse_obj env c d) \<Longrightarrow>
     parse_calls (fst (try_models env d (yields pre g)))
       = pre @ parse_calls (fst (try_models env d g))"
  by (induction pre) (auto simp: isl_def split: prod.splits)

lemma json_to_event_returns:
  "\<exists>tr r. json_to_event env json_data self_name = (tr, Inr r)"
  by (cases json_data) (auto simp: json_to_event_def split: prod.splits sum.splits)

text \<open>
  C7: for a JSON object, \<^verbatim>\<open>json_to_event\<close> tries the candidates in the order the collator
  yields them and returns what the first candidate that parses gives. When the generator
  yields the models \<open>pre\<close>, which all raise, and then \<open>m\<close>, which parses to \<open>event\<close>, the
  result is \<open>event\<close> and the calls of \<^verbatim>\<open>parse_obj\<close> are exactly those on \<open>pre\<close> and on
  \<open>m\<close>, in that order: nothing of \<open>rest\<close> is tried, whatever it is.
\<close>

theorem json_to_event_first_success:
  assumes "get_model env d = yields pre (Yield m rest)"
    and "\<forall>c\<in>set pre. isl (parse_obj env c d)"
    and "parse_obj env m d = Inr event"
  shows "\<exists>tr. json_to_event env (JObj d) self_name = (tr, Inr (Some event))
           \<and> parse_calls tr = pre @ [m]"
proof -
  have r: "snd (try_models env d (yields pre (Yield m rest))) = Inr event"
    using assms(2,3) by (simp add: try_models_yields_result)
  have c: "parse_calls (fst (try_models env d (yields pre (Yield m rest)))) = pre @ [m]"
    using assms(2,3) by (simp add: try_models_yields_calls)
  obtain tr where t: "try_models env d (yields pre (Yield m rest)) = (tr, Inr event)"
    using r by (cases "try_models env d (yields pre (Yield m rest))") simp
  with c have "parse_calls tr = pre @ [m]" by simp
  with t assms(1) show ?thesis
    by (simp add: json_to_event_def get_event_model_def)
qed

theorem json_to_event_first_success_witness:
  "get_model spigot_env bare_join_obj = yields [''PlayerJoin''] (Yield ''Event'' Stop)
   \<and> isl (parse_obj spigot_env ''PlayerJoin'' bare_join_obj)
   \<and> parse_obj spigot_env ''Event'' bare_join_obj = Inr (''Event'', bare_join_obj)
   \<and> (\<exists>tr. json_to_event spigot_env (JObj bare_join_obj) ''Bot1''
              = (tr, Inr (Some (''Event'', bare_join_obj)))
            \<and> parse_calls tr = [''PlayerJoin''] @ [''Event''])"
proof -
  have h1: "get_model spigot_env bare_join_obj = yields [''PlayerJoin''] (Yield ''Event'' Stop)"
    by (simp add: spigot_env_def bare_join_obj_def)
  have h2: "\<forall>c\<in>set [''PlayerJoin'']. isl (parse_obj spigot_env c bare_join_obj)"
    by (simp add: spigot_env_def bare_join_obj_def)
  have h3: "parse_obj spigot_env ''Event'' bare_join_obj = Inr (''Event'', bare_join_obj)"
    by (simp add: spigot_env_def bare_join_obj_def)
  show ?thesis
    using h1 h2 h3 json_to_event_first_success [OF h1 h2 h3, of "''Bot1''"]
    by simp
qed

text \<open>
  C8: \<^verbatim>\<open>json_to_event\<close> never raises, whatever its input. For a JSON object whose
  candidates all raise before the generator stops (also when it yields none),
  \<^verbatim>\<open>parse_obj\<close> is called on the base class \<^verbatim>\<open>Event\<close> after them; the result is the
  event it gives, or \<^verbatim>\<open>None\<close> when it raises too. When the generator itself raises after
  candidates that all raised, the result is \<^verbatim>\<open>None\<close> as well.
\<close>

theorem json_to_event_fallback:
  "(\<exists>tr r. json_to_event env json_data self_name = (tr, Inr r))
   \<and> (get_model env d = yields ms Stop \<and> (\<forall>c\<in>set ms. isl (parse_obj env c d)) \<longrightarrow>
        (\<exists>tr. json_to_event env (JObj d) self_name
                = (tr, Inr (case parse_obj env (Event env) d of
                              Inr event \<Rightarrow> Some event | Inl e \<Rightarrow> None))
              \<and> parse_calls tr = ms @ [Event env]))
   \<and> (get_model env d = yields ms (Throw x) \<and> (\<forall>c\<in>set ms. isl (parse_obj env c d)) \<longrightarrow>
        (\<exists>tr. json_to_event env (JObj d) self_name = (tr, Inr None)
              \<and> parse_calls tr = ms))"
proof (intro conjI impI)
  show "\<exists>tr r. json_to_event env json_data self_name = (tr, Inr r)"
    by (rule json_to_event_returns)
next
  assume a: "get_model env d = yields ms Stop \<and> (\<forall>c\<in>set ms. isl (parse_obj env c d))"
  then have r: "snd (try_models env d (yields ms Stop)) = parse_obj env (Event env) d"
    by (simp add: try_models_yields_result)
  have c: "parse_calls (fst (try_models env d (yields ms Stop))) = ms @ [Event env]"
    using a by (simp add: try_models_yields_calls)
  show "\<exists>tr. json_to_event env (JObj d) self_name
                = (tr, Inr (case parse_obj env (Event env) d of
                              Inr event \<Rightarrow> Some event | Inl e \<Rightarrow> None))
              \<and> parse_calls tr = ms @ [Event env]"
    using a r c
    by (cases "try_models env d (yields ms Stop)")
       (auto simp: json_to_event_def get_event_model_def parse_calls_append split: sum.splits)
next
  assume a: "get_model env d = yields ms (Throw x) \<and> (\<forall>c\<in>set ms. isl (parse_obj env c d))"
  then have r: "snd (try_models env d (yields ms (Throw x))) = Inl x"
    by (simp add: try_models_yields_result)
  have c: "parse_calls (fst (try_models env d (yields ms (Throw x)))) = ms"
    using a by (simp add: try_models_yields_calls)
  show "\<exists>tr. json_to_event env (JObj d) self_name = (tr, Inr None) \<and> parse_calls tr = ms"
    using a r c
    by (cases "try_models env d (yields ms (Throw x))")
       (auto simp: json_to_event_def get_event_model_def parse_calls_append split: sum.splits)
qed

theorem json_to_event_fallback_witness:
  "get_model spigot_env [] = yields [''Event''] Stop
   \<and> isl (parse_obj spigot_env ''Event'' [])
   \<and> (\<exists>tr. json_to_event spigot_env (JObj []) ''Bot1'' = (tr, Inr None)
            \<and> parse_calls tr = [''Event''] @ [''Event''])
   \<and> get_model (spigot_env\<lparr>get_model := \<lambda>d. Throw OtherException\<rparr>) []
        = yields [] (Throw OtherException)
   \<and> (\<exists>tr. json_to_event (spigot_env\<lparr>get_model := \<lambda>d. Throw OtherException\<rparr>) (JObj []) ''Bot1''
              = (tr, Inr None) \<and> parse_calls tr = [])"
proof -
  have h1: "get_model spigot_env [] = yields [''Event''] Stop"
    by (simp add: spigot_env_def)
  have h2: "\<forall>c\<in>set [''Event'']. isl (parse_obj spigot_env c [])"
    by (simp add: spigot_env_def)
  have h3: "parse_obj spigot_env (Event spigot_env) [] = Inl ValidationError"
    by (simp add: spigot_env_def)
  have h4: "get_model (spigot_env\<lparr>get_model := \<lambda>d. Throw OtherException\<rparr>) []
              = yields [] (Throw OtherException)"
    by simp
  have h5: "Event spigot_env = ''Event''"
    by (simp add: spigot_env_def)
  show ?thesis
    using h1 h2 h3 h4 h5
      json_to_event_fallback [of spigot_env JNull "''Bot1''" "[]" "[''Event'']" OtherException]
      json_to_event_fallback [of "spigot_env\<lparr>get_model := \<lambda>d. Throw OtherException\<rparr>"
        JNull "''Bot1''" "[]" "[]" OtherException]
    by simp
qed

section \<open>Connections: the receive loop\<close>

text \<open>
  Frames that leave the loop waiting can be followed by more frames: the loop goes on
  from where it was.
\<close>

lemma receive_loop_append:
  "receive_loop env n pre = (tr0, None) \<Longrightarrow>
     receive_loop env n (pre @ rs) = (case receive_loop env n rs of (tr, x) \<Rightarrow> (tr0 @ tr, x))"
proof (induction env n pre arbitrary: tr0 rule: receive_loop.induct)
  case (1 env self_name)
  then show ?case by (simp split: prod.splits)
next
  case (2 env self_name e rs)
  then show ?case by simp
next
  case (3 env self_name rs)
  then show ?case by simp
next
  case (4 env self_name data rs')
  then show ?case
    by (auto split: option.splits prod.splits sum.splits)
qed

lemma receive_loop_raises:
  assumes "receive_loop env n pre = (tr0, None)"
  shows "receive_loop env n (pre @ Recv_raises e # rest) = (tr0, Some (Exc e))"
    and "receive_loop env n (pre @ Recv_cancelled # rest) = (tr0, Some CancelledError)"
  using assms by (simp_all add: receive_loop_append)

lemma receive_loop_malformed:
  assumes "receive_loop env n pre = (tr0, None)" and "loads env data = None"
  shows "receive_loop env n (pre @ Data data # rest) = (tr0, Some (Exc JSONDecodeError))"
  using assms by (simp add: receive_loop_append)






section \<open>Connections: the parts of a run\<close>

text \<open>
  A handshake that passes both tests, followed by a registration whose log call
  returns, enters the \<^verbatim>\<open>try\<close> statement with the identity registered.
\<close>

lemma adapter_accepted:
  assumes "x_self_name websocket = Some n" and "n \<noteq> []" and "n \<notin> bots s"
    and "\<not> log_raises env INFO (Connected n)"
  shows "adapter_handle_ws env websocket s =
           (case try_receive env websocket n
                   (s\<lparr>connections := (connections s)(n \<mapsto> ident websocket),
                      bots := insert n (bots s)\<rparr>) of
              (tr, s', st) \<Rightarrow>
                (Ws_accept (ident websocket) # Bot_connect n # Log INFO (Connected n) # tr,
                 s', st))"
  using assms
  by (simp add: adapter_handle_ws_def adapter_handshake_def adapter_register_def
      bot_connect_def split: prod.splits)

lemma adapters_accepted:
  assumes "x_self_name websocket = Some h" and "unicode_escape env h = Inr n"
    and "n \<noteq> []" and "n \<notin> bots s" and "\<not> log_raises env INFO (Connected n)"
  shows "adapters_handle_ws env websocket s =
           (case try_receive env websocket n
                   (s\<lparr>connections := (connections s)(n \<mapsto> ident websocket),
                      get_connections := (get_connections s)(n \<mapsto> ident websocket),
                      bots := insert n (bots s)\<rparr>) of
              (tr, s', st) \<Rightarrow>
                (Ws_accept (ident websocket) # Bot_connect n # Log INFO (Connected n) # tr,
                 s', st))"
  using assms
  by (simp add: adapters_handle_ws_def adapters_handshake_def adapters_register_def
      bot_connect_def case_prod_unfold)



text \<open>The example environment on the frames and names of the runs below.\<close>

lemma spigot_loads_not_json: "loads spigot_env ''not json'' = None"
  by (simp add: spigot_env_def join_text_def)

lemma spigot_loads_join: "loads spigot_env join_text = Some (JObj join_obj)"
  by (simp add: spigot_env_def)

lemma spigot_json_to_event_join:
  "json_to_event spigot_env (JObj join_obj) n
     = ([Parse_obj ''PlayerJoin''], Inr (Some (''PlayerJoin'', join_obj)))"
  by (simp add: json_to_event_def get_event_model_def spigot_env_def join_obj_def)

lemma spigot_receive_join:
  "receive_loop spigot_env ''Bot1'' [Data join_text]
     = ([Parse_obj ''PlayerJoin'', Create_task ''Bot1'' (''PlayerJoin'', join_obj)], None)"
  by (simp add: spigot_loads_join spigot_json_to_event_join)

lemma spigot_unicode_escape_bot1: "unicode_escape spigot_env ''Bot1'' = Inr ''Bot1''"
  by (simp add: spigot_env_def)

lemma spigot_log_bot1:
  "\<not> log_raises spigot_env INFO (Connected ''Bot1'')"
  "\<not> log_raises spigot_env WARNING (Closed_by_peer ''Bot1'')"
  "\<not> log_raises spigot_env ERROR (Process_error ''Bot1'' e)"
  "\<not> log_raises spigot_env WARNING (Already_a_bot ''Bot1'')"
  by (simp_all add: spigot_env_def)

lemmas spigot_run =
  adapter_handle_ws_def adapter_handshake_def adapter_register_def
  adapters_handle_ws_def adapters_handshake_def adapters_register_def
  try_receive_def except_handlers_def finally_block_def bot_connect_def bot_disconnect_def
  bot1_socket_def init_def spigot_log_bot1 spigot_unicode_escape_bot1
  spigot_loads_join spigot_loads_not_json spigot_json_to_event_join

lemma adapter_run_peer_close:
  "adapter_handle_ws spigot_env
     (bot1_socket [Data join_text, Recv_raises WebSocketClosed]) (init Map.empty)
   = ([Ws_accept 1, Bot_connect ''Bot1'', Log INFO (Connected ''Bot1''),
       Parse_obj ''PlayerJoin'', Create_task ''Bot1'' (''PlayerJoin'', join_obj),
       Log WARNING (Closed_by_peer ''Bot1''), Ws_close 1 None, Bot_disconnect ''Bot1''],
      init Map.empty, Terminated ''Bot1'')"
  by (simp add: spigot_run)

lemma adapter_run_cancelled:
  "adapter_handle_ws spigot_env (bot1_socket [Data join_text, Recv_cancelled]) (init Map.empty)
   = ([Ws_accept 1, Bot_connect ''Bot1'', Log INFO (Connected ''Bot1''),
       Parse_obj ''PlayerJoin'', Create_task ''Bot1'' (''PlayerJoin'', join_obj),
       Ws_close 1 None, Bot_disconnect ''Bot1''],
      init Map.empty, Cancelled)"
  by (simp add: spigot_run)



section \<open>Connections: a frame that is not JSON\<close>

text \<open>
  C1, as the code has it: \<^verbatim>\<open>json.loads(data)\<close> stands inside the loop and the \<^verbatim>\<open>try\<close>
  statement around the loop, so a text frame that is not valid JSON ends the loop. Take a
  connection whose handshake passed and whose \<^verbatim>\<open>INFO\<close> log call returned. After frames
  \<open>pre\<close> that left the loop waiting, such a frame dispatches no event; the handler
  \<^verbatim>\<open>except Exception\<close> logs an error and the \<^verbatim>\<open>finally\<close> block calls
  \<^verbatim>\<open>websocket.close()\<close>. When that log call returns and the task is not cancelled in the
  close, the block removes the identity from \<^verbatim>\<open>self.connections\<close>, calls
  \<^verbatim>\<open>bot_disconnect\<close>, and \<^verbatim>\<open>_handle_ws\<close> returns. The frames \<open>rest\<close> that follow are
  never received. This holds in both variants.
\<close>

theorem malformed_frame_ends_connection:
  assumes "receive websocket = pre @ Data data # rest"
    and "receive_loop env self_name pre = (tr0, None)"
    and "loads env data = None"
    and "self_name \<noteq> []" and "self_name \<notin> bots s"
    and "\<not> log_raises env INFO (Connected self_name)"
    and "\<not> log_raises env ERROR (Process_error self_name JSONDecodeError)"
    and "\<not> close_cancelled websocket"
  shows "(x_self_name websocket = Some self_name \<longrightarrow>
            adapter_handle_ws env websocket s =
              ([Ws_accept (ident websocket), Bot_connect self_name, Log INFO (Connected self_name)]
               @ tr0
               @ [Log ERROR (Process_error self_name JSONDecodeError),
                  Ws_close (ident websocket) None]
               @ (case close_raises websocket of None \<Rightarrow> [] | Some x \<Rightarrow> [Suppressed x])
               @ [Bot_disconnect self_name],
               s\<lparr>connections := (connections s)(self_name := None)\<rparr>,
               Terminated self_name))
       \<and> (\<forall>h. x_self_name websocket = Some h \<and> unicode_escape env h = Inr self_name \<longrightarrow>
            adapters_handle_ws env websocket s =
              ([Ws_accept (ident websocket), Bot_connect self_name, Log INFO (Connected self_name)]
               @ tr0
               @ [Log ERROR (Process_error self_name JSONDecodeError),
                  Ws_close (ident websocket) None]
               @ (case close_raises websocket of None \<Rightarrow> [] | Some x \<Rightarrow> [Suppressed x])
               @ [Bot_disconnect self_name],
               s\<lparr>connections := (connections s)(self_name := None),
                 get_connections := (get_connections s)(self_name \<mapsto> ident websocket)\<rparr>,
               Terminated self_name))"
proof -
  have l: "receive_loop env self_name (receive websocket) = (tr0, Some (Exc JSONDecodeError))"
    using assms(1,2,3) by (simp add: receive_loop_malformed)
  have t: "try_receive env websocket self_name s' =
             (tr0 @ [Log ERROR (Process_error self_name JSONDecodeError),
                     Ws_close (ident websocket) None]
              @ (case close_raises websocket of None \<Rightarrow> [] | Some x \<Rightarrow> [Suppressed x])
              @ [Bot_disconnect self_name],
              s'\<lparr>connections := (connections s')(self_name := None),
                 bots := bots s' - {self_name}\<rparr>,
              Terminated self_name)" for s'
    using l assms(7,8)
    by (simp add: try_receive_def except_handlers_def finally_block_def bot_disconnect_def)
  show ?thesis
    using assms(4,5,6)
    by (simp add: adapter_accepted adapters_accepted t)
qed

theorem malformed_frame_ends_connection_witness:
  "receive (bot1_socket [Data join_text, Data ''not json'', Data join_text])
     = [Data join_text] @ Data ''not json'' # [Data join_text]
   \<and> receive_loop spigot_env ''Bot1'' [Data join_text]
       = ([Parse_obj ''PlayerJoin'', Create_task ''Bot1'' (''PlayerJoin'', join_obj)], None)
   \<and> loads spigot_env ''not json'' = None
   \<and> ''Bot1'' \<noteq> [] \<and> ''Bot1'' \<notin> bots (init Map.empty)
   \<and> \<not> log_raises spigot_env INFO (Connected ''Bot1'')
   \<and> \<not> log_raises spigot_env ERROR (Process_error ''Bot1'' JSONDecodeError)
   \<and> \<not> close_cancelled (bot1_socket [Data join_text, Data ''not json'', Data join_text])
   \<and> x_self_name (bot1_socket [Data join_text, Data ''not json'', Data join_text]) = Some ''Bot1''
   \<and> unicode_escape spigot_env ''Bot1'' = Inr ''Bot1''
   \<and> adapter_handle_ws spigot_env
        (bot1_socket [Data join_text, Data ''not json'', Data join_text]) (init Map.empty)
       = ([Ws_accept 1, Bot_connect ''Bot1'', Log INFO (Connected ''Bot1''),
           Parse_obj ''PlayerJoin'', Create_task ''Bot1'' (''PlayerJoin'', join_obj),
           Log ERROR (Process_error ''Bot1'' JSONDecodeError),
           Ws_close 1 None, Bot_disconnect ''Bot1''],
          init Map.empty, Terminated ''Bot1'')
   \<and> adapters_handle_ws spigot_env
        (bot1_socket [Data join_text, Data ''not json'', Data join_text]) (init Map.empty)
       = ([Ws_accept 1, Bot_connect ''Bot1'', Log INFO (Connected ''Bot1''),
           Parse_obj ''PlayerJoin'', Create_task ''Bot1'' (''PlayerJoin'', join_obj),
           Log ERROR (Process_error ''Bot1'' JSONDecodeError),
           Ws_close 1 None, Bot_disconnect ''Bot1''],
          init [''Bot1'' \<mapsto> 1], Terminated ''Bot1'')"
proof -
  let ?w = "bot1_socket [Data join_text, Data ''not json'', Data join_text]"
  have h1: "receive ?w = [Data join_text] @ Data ''not json'' # [Data join_text]"
    by (simp add: bot1_socket_def)
  have h4: "''Bot1'' \<noteq> []" by simp
  have h5: "''Bot1'' \<notin> bots (init Map.empty)" by (simp add: init_def)
  have h6: "x_self_name ?w = Some ''Bot1''" by (simp add: bot1_socket_def)
  have h7: "\<not> close_cancelled ?w" by (simp add: bot1_socket_def)
  have i: "ident ?w = 1" "close_raises ?w = None" by (simp_all add: bot1_socket_def)
  show ?thesis
    using h1 spigot_receive_join spigot_loads_not_json h4 h5 h6 h7 spigot_unicode_escape_bot1
      spigot_log_bot1(1) spigot_log_bot1(3) [of JSONDecodeError]
      malformed_frame_ends_connection [OF h1 spigot_receive_join spigot_loads_not_json h4 h5
        spigot_log_bot1(1) spigot_log_bot1(3) h7]
    by (simp add: i init_def)
qed

text \<open>
  C1 as it is stated fails: the peer \<^verbatim>\<open>Bot1\<close> sends the text \<^verbatim>\<open>not json\<close> and then a
  valid \<^verbatim>\<open>PlayerJoin\<close> frame. The run ends in the \<^verbatim>\<open>finally\<close> block with the connection
  closed and the identity removed, and the valid frame is not dispatched, although the same
  frame alone is dispatched and leaves the connection open.
\<close>

theorem malformed_frame_counterexample:
  "adapter_handle_ws spigot_env (bot1_socket [Data ''not json'', Data join_text]) (init Map.empty)
     = ([Ws_accept 1, Bot_connect ''Bot1'', Log INFO (Connected ''Bot1''),
         Log ERROR (Process_error ''Bot1'' JSONDecodeError),
         Ws_close 1 None, Bot_disconnect ''Bot1''],
        init Map.empty, Terminated ''Bot1'')
   \<and> adapter_handle_ws spigot_env (bot1_socket [Data join_text]) (init Map.empty)
     = ([Ws_accept 1, Bot_connect ''Bot1'', Log INFO (Connected ''Bot1''),
         Parse_obj ''PlayerJoin'', Create_task ''Bot1'' (''PlayerJoin'', join_obj)],
        bot1_online, Active ''Bot1'')"
  by (simp add: spigot_run bot1_online_def)

section \<open>Connections: cleanup\<close>




section \<open>Connections: the handshake\<close>

text \<open>
  The first variant rejects a request without the header, or with an empty one, by
  closing with 1008 and leaves the adapter as it was; the second variant does so for a
  header that decodes to the empty string.
\<close>

lemma adapter_missing_header_rejected:
  "x_self_name websocket = None \<or> x_self_name websocket = Some [] \<Longrightarrow>
     adapter_handle_ws env websocket s =
       ([Log WARNING Missing_header,
         Ws_close (ident websocket) (Some (1008, ''Missing X-Self-ID Header''))], s, Rejected)"
  by (auto simp: adapter_handle_ws_def adapter_handshake_def)

lemma adapters_empty_header_rejected:
  "x_self_name websocket = Some h \<Longrightarrow> unicode_escape env h = Inr [] \<Longrightarrow>
     adapters_handle_ws env websocket s =
       ([Log WARNING Missing_header,
         Ws_close (ident websocket) (Some (1008, ''Missing X-Self-Name Header''))], s, Rejected)"
  by (simp add: adapters_handle_ws_def adapters_handshake_def)

text \<open>
  C2, where the code departs from it: in the second variant a request that carries no
  \<^verbatim>\<open>X-Self-Name\<close> header makes \<^verbatim>\<open>headers.get\<close> return \<^verbatim>\<open>None\<close>, and the call of
  \<^verbatim>\<open>.encode\<close> on it raises \<^verbatim>\<open>AttributeError\<close> out of \<^verbatim>\<open>_handle_ws\<close>. Nothing is logged,
  \<^verbatim>\<open>websocket.close(1008, ...)\<close> is not called, and the adapter is unchanged.
\<close>

theorem adapters_missing_header_raises:
  "adapters_handle_ws env (websocket\<lparr>x_self_name := None\<rparr>) s = ([], s, Raised AttributeError)"
  by (simp add: adapters_handle_ws_def adapters_handshake_def)

text \<open>
  When the logger rejects the \<^verbatim>\<open>INFO\<close> message, the exception leaves \<^verbatim>\<open>_handle_ws\<close>
  after the identity has been registered and before the \<^verbatim>\<open>try\<close> statement: nothing
  removes the entry.
\<close>

lemma register_log_raises:
  assumes "n \<noteq> []" and "n \<notin> bots s" and "log_raises env INFO (Connected n)"
  shows "x_self_name websocket = Some n \<Longrightarrow>
           adapter_handle_ws env websocket s =
             ([Ws_accept (ident websocket), Bot_connect n],
              s\<lparr>connections := (connections s)(n \<mapsto> ident websocket),
                bots := insert n (bots s)\<rparr>,
              Raised ValueError)"
    and "x_self_name websocket = Some h \<Longrightarrow> unicode_escape env h = Inr n \<Longrightarrow>
           adapters_handle_ws env websocket s =
             ([Ws_accept (ident websocket), Bot_connect n],
              s\<lparr>connections := (connections s)(n \<mapsto> ident websocket),
                get_connections := (get_connections s)(n \<mapsto> ident websocket),
                bots := insert n (bots s)\<rparr>,
              Raised ValueError)"
  using assms
  by (simp_all add: adapter_handle_ws_def adapter_handshake_def adapter_register_def
      adapters_handle_ws_def adapters_handshake_def adapters_register_def bot_connect_def)

text \<open>
  The invariant holds at the start and is kept by each part of a run that changes the
  maps, the registration and the \<^verbatim>\<open>finally\<close> block, hence by every run of
  \<^verbatim>\<open>_handle_ws\<close>, finished or waiting for a frame.
\<close>

lemma registry_inv_init: "registry_inv (init g)"
  by (simp add: registry_inv_def init_def)

lemma registry_inv_register:
  "registry_inv s \<Longrightarrow> n \<noteq> [] \<Longrightarrow> adapter_register env websocket n s = (tr, s', r) \<Longrightarrow>
     registry_inv s'"
  "registry_inv s \<Longrightarrow> n \<noteq> [] \<Longrightarrow> adapters_register env websocket n s = (tr, s', r) \<Longrightarrow>
     registry_inv s'"
  by (auto simp: registry_inv_def adapter_register_def adapters_register_def bot_connect_def
      split: if_splits)

lemma registry_inv_finally:
  "registry_inv s \<Longrightarrow> finally_block websocket n s = (fin, s', c) \<Longrightarrow> registry_inv s'"
  by (auto simp: finally_block_def bot_disconnect_def registry_inv_def split: if_splits)

lemma registry_inv_try_receive:
  "registry_inv s \<Longrightarrow> try_receive env websocket n s = (tr, s', st) \<Longrightarrow> registry_inv s'"
  by (auto simp: try_receive_def split: prod.splits option.splits dest: registry_inv_finally)

lemma handshake_name:
  "adapter_handshake env websocket s = (tr, Inr n) \<Longrightarrow> n \<noteq> [] \<and> n \<notin> bots s"
  "adapters_handshake env websocket s = (tr, Inr n) \<Longrightarrow> n \<noteq> [] \<and> n \<notin> bots s"
  by (auto simp: adapter_handshake_def adapters_handshake_def
      split: option.splits sum.splits if_splits)

lemma registry_inv_adapter_handle_ws:
  assumes "registry_inv s" and "adapter_handle_ws env websocket s = (effs, s', st)"
  shows "registry_inv s'"
proof (cases "adapter_handshake env websocket s")
  case (Pair tr r)
  show ?thesis
  proof (cases r)
    case (Inl a)
    with Pair assms show ?thesis by (simp add: adapter_handle_ws_def)
  next
    case (Inr n)
    obtain tr1 s1 e where g: "adapter_register env websocket n s = (tr1, s1, e)"
      by (cases "adapter_register env websocket n s")
    have i1: "registry_inv s1"
      using registry_inv_register(1) [OF assms(1) _ g] handshake_name(1) Pair Inr by blast
    show ?thesis
      using Pair Inr g assms(2) i1 registry_inv_try_receive [OF i1]
      by (auto simp: adapter_handle_ws_def split: option.splits prod.splits)
  qed
qed

lemma registry_inv_adapters_handle_ws:
  assumes "registry_inv s" and "adapters_handle_ws env websocket s = (effs, s', st)"
  shows "registry_inv s'"
proof (cases "adapters_handshake env websocket s")
  case (Pair tr r)
  show ?thesis
  proof (cases r)
    case (Inl a)
    with Pair assms show ?thesis by (simp add: adapters_handle_ws_def)
  next
    case (Inr n)
    obtain tr1 s1 e where g: "adapters_register env websocket n s = (tr1, s1, e)"
      by (cases "adapters_register env websocket n s")
    have i1: "registry_inv s1"
      using registry_inv_register(2) [OF assms(1) _ g] handshake_name(2) Pair Inr by blast
    show ?thesis
      using Pair Inr g assms(2) i1 registry_inv_try_receive [OF i1]
      by (auto simp: adapters_handle_ws_def split: option.splits prod.splits)
  qed
qed

text \<open>
  In every state of the adapter in which an identity is registered, a second connection
  that presents this identity is rejected with code 1008 and the adapter is as before,
  provided the logger accepts the warning that carries the identity.
\<close>

lemma duplicate_rejected_when_logged:
  assumes "registry_inv s" and "connections s self_name = Some w"
    and "\<not> log_raises env WARNING (Already_a_bot self_name)"
  shows "(x_self_name websocket = Some self_name \<longrightarrow>
            adapter_handle_ws env websocket s =
              ([Log WARNING (Already_a_bot self_name),
                Ws_close (ident websocket) (Some (1008, ''Duplicate X-Self-ID''))],
               s, Rejected))
       \<and> (\<forall>h. x_self_name websocket = Some h \<and> unicode_escape env h = Inr self_name \<longrightarrow>
            adapters_handle_ws env websocket s =
              ([Log WARNING (Already_a_bot self_name),
                Ws_close (ident websocket) (Some (1008, ''Duplicate X-Self-Name''))],
               s, Rejected))"
proof -
  have b: "self_name \<in> bots s" and n: "self_name \<noteq> []"
    using assms(1,2) by (auto simp: registry_inv_def)
  then show ?thesis
    using assms(3)
    by (simp add: adapter_handle_ws_def adapters_handle_ws_def
        adapter_handshake_def adapters_handshake_def)
qed

text \<open>
  A peer can register under the identity \<^verbatim>\<open><x>\<close>: the \<^verbatim>\<open>INFO\<close> message passes it through
  \<^verbatim>\<open>escape_tag\<close>.
\<close>

lemma x_first_connection:
  "adapter_handle_ws spigot_env (x_socket\<lparr>ident := 1\<rparr>) (init Map.empty)
     = ([Ws_accept 1, Bot_connect ''<x>'', Log INFO (Connected ''<x>'')], x_online, Active ''<x>'')"
  by (simp add: adapter_handle_ws_def adapter_handshake_def adapter_register_def
      try_receive_def bot_connect_def x_socket_def x_online_def init_def spigot_env_def)

text \<open>
  C4, where the code departs from it: the warning of the duplicate branch formats the
  identity without \<^verbatim>\<open>escape_tag\<close>, which the three other log calls that carry it use.
  For a registered identity that the logger rejects as markup, the \<^verbatim>\<open>log\<close> call of a
  second connection raises \<^verbatim>\<open>ValueError\<close> out of \<^verbatim>\<open>_handle_ws\<close> before
  \<^verbatim>\<open>websocket.close(1008, ...)\<close>: the connection is not closed with 1008 and nothing is
  logged. The adapter, with the entry of the existing connection, is as before.
\<close>

theorem duplicate_identity_log_raises:
  assumes "registry_inv s" and "connections s self_name = Some w"
    and "log_raises env WARNING (Already_a_bot self_name)"
  shows "(x_self_name websocket = Some self_name \<longrightarrow>
            adapter_handle_ws env websocket s = ([], s, Raised ValueError))
       \<and> (\<forall>h. x_self_name websocket = Some h \<and> unicode_escape env h = Inr self_name \<longrightarrow>
            adapters_handle_ws env websocket s = ([], s, Raised ValueError))"
proof -
  have b: "self_name \<in> bots s" and n: "self_name \<noteq> []"
    using assms(1,2) by (auto simp: registry_inv_def)
  then show ?thesis
    using assms(3)
    by (simp add: adapter_handle_ws_def adapters_handle_ws_def
        adapter_handshake_def adapters_handshake_def)
qed

theorem duplicate_identity_log_raises_witness:
  "registry_inv x_online \<and> connections x_online ''<x>'' = Some 1
   \<and> log_raises spigot_env WARNING (Already_a_bot ''<x>'')
   \<and> x_self_name x_socket = Some ''<x>''
   \<and> unicode_escape spigot_env ''<x>'' = Inr ''<x>''
   \<and> adapter_handle_ws spigot_env x_socket x_online = ([], x_online, Raised ValueError)
   \<and> adapters_handle_ws spigot_env x_socket x_online = ([], x_online, Raised ValueError)"
proof -
  have h1: "registry_inv x_online"
    by (simp add: registry_inv_def x_online_def)
  have h2: "connections x_online ''<x>'' = Some 1"
    by (simp add: x_online_def)
  have h3: "log_raises spigot_env WARNING (Already_a_bot ''<x>'')"
    by (simp add: spigot_env_def)
  have h4: "x_self_name x_socket = Some ''<x>''"
    by (simp add: x_socket_def)
  have h5: "unicode_escape spigot_env ''<x>'' = Inr ''<x>''"
    by (simp add: spigot_env_def)
  show ?thesis
    using h1 h2 h3 h4 h5
      duplicate_identity_log_raises [OF h1 h2 h3, of x_socket]
    by simp
qed

section \<open>Connections: two handshakes for one identity\<close>



section \<open>Connections: the module-level map\<close>




end
